theory Spec2Isabelle
  imports Main "HOL-Library.Sublist"
begin

section \<open>The environment of tally's migration module\<close>

text \<open>
  This theory embeds \<^verbatim>\<open>src/tally/migrations.py\<close>. The module is a sequence of
  effects on the file system, the terminal and the standard streams, so the model
  threads an explicit \<open>world\<close> through every function, and every exception of the
  source is a value of type \<open>exn\<close> returned on the left of a sum.

  Python-level paths are strings, handled by the functions of \<^verbatim>\<open>posixpath\<close>
  (\<open>basename\<close>, \<open>dirname\<close>, \<open>join\<close>) exactly as the source calls them. The file
  system itself is keyed by resolved locations: the list of components that remains
  after the kernel has dropped empty and \<^verbatim>\<open>.\<close> components and followed
  \<^verbatim>\<open>..\<close>. Two strings that name the same object therefore resolve to the same
  key. Symbolic links and hard links are not modelled.
\<close>

subsection \<open>Strings\<close>

fun split_on :: "char \<Rightarrow> string \<Rightarrow> string list" where
  "split_on c [] = [[]]"
| "split_on c (x # xs) =
     (if x = c then [] # split_on c xs
      else (case split_on c xs of [] \<Rightarrow> [[x]] | h # t \<Rightarrow> (x # h) # t))"

definition is_space :: "char \<Rightarrow> bool" where
  \<comment> \<open>\<^verbatim>\<open>str.isspace\<close> on the code points below 256\<close>
  "is_space c =
     (let n = (of_char c :: nat)
      in (9 \<le> n \<and> n \<le> 13) \<or> (28 \<le> n \<and> n \<le> 32) \<or> n = 133 \<or> n = 160)"

definition strip :: "string \<Rightarrow> string" where
  "strip s = rev (dropWhile is_space (rev (dropWhile is_space s)))"

definition lower_char :: "char \<Rightarrow> char" where
  "lower_char c =
     (let n = (of_char c :: nat)
      in if (65 \<le> n \<and> n \<le> 90) \<or> (192 \<le> n \<and> n \<le> 222 \<and> n \<noteq> 215)
         then char_of (n + 32) else c)"

definition lower :: "string \<Rightarrow> string" where
  "lower s = map lower_char s"

definition is_digit :: "char \<Rightarrow> bool" where
  "is_digit c = (48 \<le> (of_char c :: nat) \<and> (of_char c :: nat) \<le> 57)"

definition digit_val :: "char \<Rightarrow> int" where
  "digit_val c = of_char c - 48"

datatype exn = OSError | ShutilError | ValueError | EOFError | KeyboardInterrupt | CollabError

text \<open>
  \<^verbatim>\<open>int(s)\<close> in base ten: surrounding whitespace, an optional sign, then decimal
  digits in which single underscores may separate digits. Anything else raises
  \<^verbatim>\<open>ValueError\<close>. (CPython's limit of 4300 digits is not modelled.)
\<close>

fun digits_acc :: "int \<Rightarrow> string \<Rightarrow> int option" where
  "digits_acc a [] = Some a"
| "digits_acc a [c] = (if is_digit c then Some (10 * a + digit_val c) else None)"
| "digits_acc a (c # d # ds) =
     (if is_digit c then digits_acc (10 * a + digit_val c) (d # ds)
      else if c = CHR ''_'' \<and> is_digit d then digits_acc (10 * a + digit_val d) ds
      else None)"

definition py_digits :: "string \<Rightarrow> int option" where
  "py_digits s =
     (case s of [] \<Rightarrow> None
      | c # cs \<Rightarrow> if is_digit c then digits_acc (digit_val c) cs else None)"

definition py_int_literal :: "string \<Rightarrow> int option" where
  "py_int_literal s =
     (case strip s of
        [] \<Rightarrow> None
      | c # r \<Rightarrow>
          if c = CHR ''+'' then py_digits r
          else if c = CHR ''-'' then map_option uminus (py_digits r)
          else py_digits (c # r))"

definition py_int :: "string \<Rightarrow> exn + int" where
  "py_int s = (case py_int_literal s of None \<Rightarrow> Inl ValueError | Some n \<Rightarrow> Inr n)"

subsection \<open>Paths\<close>

definition is_sep :: "char \<Rightarrow> bool" where
  "is_sep c = (c = CHR ''/'')"

definition basename :: "string \<Rightarrow> string" where
  \<comment> \<open>\<^verbatim>\<open>i = p.rfind('/') + 1; return p[i:]\<close>\<close>
  "basename p = rev (takeWhile (\<lambda>c. \<not> is_sep c) (rev p))"

definition dirname :: "string \<Rightarrow> string" where
  \<comment> \<open>\<^verbatim>\<open>head = p[:i]; if head and head != '/'*len(head): head = head.rstrip('/')\<close>\<close>
  "dirname p =
     (let head = rev (dropWhile (\<lambda>c. \<not> is_sep c) (rev p))
      in if head \<noteq> [] \<and> \<not> list_all is_sep head
         then rev (dropWhile is_sep (rev head)) else head)"

definition join :: "string \<Rightarrow> string \<Rightarrow> string" where
  "join a b =
     (if b \<noteq> [] \<and> is_sep (hd b) then b
      else if a = [] \<or> is_sep (last a) then a @ b
      else a @ ''/'' @ b)"

type_synonym loc = "string list"

definition norm_step :: "loc \<Rightarrow> string \<Rightarrow> loc" where
  "norm_step acc c =
     (if c = [] \<or> c = ''.'' then acc
      else if c = ''..'' then butlast acc
      else acc @ [c])"

definition components :: "string \<Rightarrow> string list" where
  "components p = split_on (CHR ''/'') p"

definition isabs :: "string \<Rightarrow> bool" where
  "isabs p = (p \<noteq> [] \<and> is_sep (hd p))"

subsection \<open>The world\<close>

datatype node = File string | Dir

datatype prim = POpenR | PRead | PDecode | POpenW | POpenA | PWrite | PMkdir | PRename

datatype inp = Line string | EndOfInput | Interrupt

datatype event =
    EvMkdir loc
  | EvRename loc loc
  | EvTruncate loc
  | EvCreate loc
  | EvWrite loc string

text \<open>
  The lines the module prints. Their texts contain colour codes and characters
  outside ASCII, so each distinct line of the source is one constructor.
\<close>

datatype msg =
    Blank
  | MigrationAvailable
  | CurrentLayout
  | NewLayout
  | PromptLayout
  | Skipped
  | MovingConfig
  | MovingSubdir string
  | Migrated
  | ErrorDuringMigration exn
  | Created
  | Converted nat
  | BackedUp
  | UpdatedSettings
  | AddedPointer
  | MigrationFailed exn
  | NoRulesFound
  | Banner nat
  | PromptFormat
  | SkippedCsv
  | TipMigrate
  | Migrating
  | MigrationComplete
  | Loaded nat string
  | NoRulesDefined
  | RunDiscover
  | TipAgent

text \<open>
  \<open>faults\<close> says which primitive fails on which location for a reason the tree does
  not show (permissions, a read-only mount, bytes that are not UTF-8). \<open>stdin\<close> is
  the script of what \<^verbatim>\<open>input()\<close> will meet. \<open>trace\<close> records every mutation of
  the file system in order; it is never read by the program.
\<close>

record world =
  fs :: "loc \<rightharpoonup> node"
  faults :: "prim \<Rightarrow> loc \<Rightarrow> bool"
  cwd :: string
  stdin_tty :: bool
  stdout_tty :: bool
  stdin :: "inp list"
  stdout :: "msg list"
  stderr :: "msg list"
  trace :: "event list"

fun is_write :: "event \<Rightarrow> bool" where
  "is_write (EvWrite l s) = True"
| "is_write e = False"

definition write_events :: "event list \<Rightarrow> event list" where
  \<comment> \<open>the part of a trace that puts text into files\<close>
  "write_events evs = filter is_write evs"

definition resolve :: "world \<Rightarrow> string \<Rightarrow> loc" where
  "resolve w p =
     foldl norm_step [] ((if isabs p then [] else components (cwd w)) @ components p)"

definition print :: "msg \<Rightarrow> world \<Rightarrow> world" where
  "print m w = w\<lparr>stdout := stdout w @ [m]\<rparr>"

definition prints :: "msg list \<Rightarrow> world \<Rightarrow> world" where
  \<comment> \<open>several \<^verbatim>\<open>print\<close> calls in a row\<close>
  "prints ms w = w\<lparr>stdout := stdout w @ ms\<rparr>"

definition eprint :: "msg \<Rightarrow> world \<Rightarrow> world" where
  "eprint m w = w\<lparr>stderr := stderr w @ [m]\<rparr>"

definition path_exists :: "world \<Rightarrow> string \<Rightarrow> bool" where
  "path_exists w p = (p \<noteq> [] \<and> fs w (resolve w p) \<noteq> None)"

definition path_isdir :: "world \<Rightarrow> string \<Rightarrow> bool" where
  "path_isdir w p = (p \<noteq> [] \<and> fs w (resolve w p) = Some Dir)"

definition read_text :: "world \<Rightarrow> string \<Rightarrow> exn + string" where
  \<comment> \<open>\<^verbatim>\<open>with open(p, encoding='utf-8') as f: f.read()\<close>\<close>
  "read_text w p =
     (let l = resolve w p
      in if p = [] then Inl OSError
         else case fs w l of
                None \<Rightarrow> Inl OSError
              | Some Dir \<Rightarrow> Inl OSError
              | Some (File c) \<Rightarrow>
                  if faults w POpenR l \<or> faults w PRead l then Inl OSError
                  else if faults w PDecode l then Inl ValueError
                  else Inr c)"

subsection \<open>Primitives that change the file system\<close>

definition bind ::
  "world \<times> (exn + 'a) \<Rightarrow> ('a \<Rightarrow> world \<Rightarrow> world \<times> (exn + 'b)) \<Rightarrow> world \<times> (exn + 'b)" where
  \<comment> \<open>sequencing of two statements: an exception of the first skips the second\<close>
  "bind r f = (case r of (w, Inl e) \<Rightarrow> (w, Inl e) | (w, Inr x) \<Rightarrow> f x w)"

definition open_w :: "world \<Rightarrow> string \<Rightarrow> world \<times> (exn + loc)" where
  \<comment> \<open>\<^verbatim>\<open>open(p, 'w')\<close>: creates the file or truncates it\<close>
  "open_w w p =
     (let l = resolve w p
      in if p = [] \<or> l = [] \<or> faults w POpenW l \<or> fs w l = Some Dir
            \<or> fs w (butlast l) \<noteq> Some Dir
         then (w, Inl OSError)
         else (w\<lparr>fs := (fs w)(l \<mapsto> File []), trace := trace w @ [EvTruncate l]\<rparr>, Inr l))"

definition open_a :: "world \<Rightarrow> string \<Rightarrow> world \<times> (exn + loc)" where
  \<comment> \<open>\<^verbatim>\<open>open(p, 'a')\<close>: creates the file when it is missing, keeps its content otherwise\<close>
  "open_a w p =
     (let l = resolve w p
      in if p = [] \<or> l = [] \<or> faults w POpenA l \<or> fs w l = Some Dir
            \<or> fs w (butlast l) \<noteq> Some Dir
         then (w, Inl OSError)
         else if fs w l = None
         then (w\<lparr>fs := (fs w)(l \<mapsto> File []), trace := trace w @ [EvCreate l]\<rparr>, Inr l)
         else (w, Inr l))"

definition write_to :: "world \<Rightarrow> loc \<Rightarrow> string \<Rightarrow> world \<times> (exn + unit)" where
  \<comment> \<open>\<^verbatim>\<open>f.write(s)\<close> on an open file: the text goes to the end of the file\<close>
  "write_to w l s =
     (case fs w l of
        Some (File c) \<Rightarrow>
          if faults w PWrite l then (w, Inl OSError)
          else (w\<lparr>fs := (fs w)(l \<mapsto> File (c @ s)), trace := trace w @ [EvWrite l s]\<rparr>, Inr ())
      | _ \<Rightarrow> (w, Inl OSError))"

definition write_text :: "world \<Rightarrow> string \<Rightarrow> string \<Rightarrow> world \<times> (exn + unit)" where
  \<comment> \<open>\<^verbatim>\<open>with open(p, 'w', encoding='utf-8') as f: f.write(s)\<close>\<close>
  "write_text w p s = bind (open_w w p) (\<lambda>l w1. write_to w1 l s)"

text \<open>
  \<^verbatim>\<open>os.makedirs(p, exist_ok=True)\<close> walks the components of the path from the root:
  a component that is a directory is passed, a missing one is created, a file stops
  the walk with an error. Directories created before the error stay.
\<close>

fun mkdirs :: "world \<Rightarrow> loc \<Rightarrow> string list \<Rightarrow> world \<times> (exn + unit)" where
  "mkdirs w pre [] = (w, Inr ())"
| "mkdirs w pre (c # cs) =
     (case fs w (pre @ [c]) of
        Some Dir \<Rightarrow> mkdirs w (pre @ [c]) cs
      | Some (File x) \<Rightarrow> (w, Inl OSError)
      | None \<Rightarrow>
          if faults w PMkdir (pre @ [c]) then (w, Inl OSError)
          else mkdirs (w\<lparr>fs := (fs w)(pre @ [c] \<mapsto> Dir),
                         trace := trace w @ [EvMkdir (pre @ [c])]\<rparr>) (pre @ [c]) cs)"

definition makedirs :: "world \<Rightarrow> string \<Rightarrow> world \<times> (exn + unit)" where
  "makedirs w p = (if p = [] then (w, Inl OSError) else mkdirs w [] (resolve w p))"

text \<open>
  \<^verbatim>\<open>os.rename\<close> as \<^verbatim>\<open>shutil.move\<close> reaches it, with the outcome of the copy
  fallback that \<^verbatim>\<open>shutil.move\<close> runs when the rename is refused. The whole subtree
  below the source moves below the destination in one step. The rename is refused
  when the source is missing, when one path lies inside the other, when the parent
  of the destination is not a directory, and when the destination exists and is not
  a file replaced by a file. (\<^verbatim>\<open>shutil.move\<close> renames onto an existing directory only
  when source and destination are the same object.)
\<close>

definition subtree_move :: "(loc \<rightharpoonup> node) \<Rightarrow> loc \<Rightarrow> loc \<Rightarrow> (loc \<rightharpoonup> node)" where
  "subtree_move m S R =
     (\<lambda>q. if prefix S q then None
          else if prefix R q then m (S @ drop (length R) q)
          else m q)"

definition rename :: "world \<Rightarrow> string \<Rightarrow> string \<Rightarrow> world \<times> (exn + unit)" where
  "rename w src dst =
     (let S = resolve w src; R = resolve w dst
      in if src = [] \<or> dst = [] \<or> fs w S = None \<or> faults w PRename S \<or> faults w PRename R
         then (w, Inl OSError)
         else if S = R then (w, Inr ())
         else if prefix S R
         then (w, Inl (if fs w S = Some Dir then ShutilError else OSError))
         else if prefix R S \<or> fs w (butlast R) \<noteq> Some Dir then (w, Inl OSError)
         else if fs w S = Some Dir \<and> fs w R \<noteq> None then (w, Inl OSError)
         else if fs w R = Some Dir then (w, Inl OSError)
         else (w\<lparr>fs := subtree_move (fs w) S R, trace := trace w @ [EvRename S R]\<rparr>, Inr ()))"

definition sh_basename :: "string \<Rightarrow> string" where
  \<comment> \<open>\<^verbatim>\<open>shutil._basename\<close>: \<^verbatim>\<open>os.path.basename(path.rstrip('/'))\<close>\<close>
  "sh_basename p = basename (rev (dropWhile is_sep (rev p)))"

definition move :: "world \<Rightarrow> string \<Rightarrow> string \<Rightarrow> world \<times> (exn + unit)" where
  \<comment> \<open>\<^verbatim>\<open>shutil.move(src, dst)\<close>\<close>
  "move w src dst =
     (if path_isdir w dst then
        if path_exists w src \<and> resolve w src = resolve w dst then rename w src dst
        else let real_dst = join dst (sh_basename src)
             in if path_exists w real_dst then (w, Inl ShutilError)
                else rename w src real_dst
      else rename w src dst)"

subsection \<open>The terminal\<close>

definition input :: "msg \<Rightarrow> world \<Rightarrow> world \<times> (exn + string)" where
  \<comment> \<open>\<^verbatim>\<open>input(prompt)\<close>: the prompt is printed, then one entry of the script is consumed\<close>
  "input prompt w =
     (let w1 = print prompt w
      in case stdin w1 of
           [] \<Rightarrow> (w1, Inl EOFError)
         | Line s # r \<Rightarrow> (w1\<lparr>stdin := r\<rparr>, Inr s)
         | EndOfInput # r \<Rightarrow> (w1\<lparr>stdin := r\<rparr>, Inl EOFError)
         | Interrupt # r \<Rightarrow> (w1\<lparr>stdin := r\<rparr>, Inl KeyboardInterrupt))"

definition abspath :: "world \<Rightarrow> string \<Rightarrow> string" where
  \<comment> \<open>\<^verbatim>\<open>os.path.abspath\<close> of a relative name: \<^verbatim>\<open>os.getcwd()\<close> is already normalised\<close>
  "abspath w p = join (cwd w) p"

section \<open>Schema version\<close>

definition SCHEMA_VERSION :: int where
  "SCHEMA_VERSION = 1"

definition get_schema_version :: "world \<Rightarrow> string \<Rightarrow> exn + int" where
  "get_schema_version w config_dir =
     (let schema_file = join config_dir ''.tally-schema''
      in if path_exists w schema_file then
           (case (case read_text w schema_file of
                    Inl e \<Rightarrow> Inl e
                  | Inr s \<Rightarrow> py_int (strip s)) of
              Inl e \<Rightarrow> if e = ValueError \<or> e = OSError then Inr 0 else Inl e
            | Inr n \<Rightarrow> Inr n)
         else Inr 0)"

section \<open>Layout migration\<close>

fun move_subdirs :: "world \<Rightarrow> string \<Rightarrow> string list \<Rightarrow> world \<times> (exn + unit)" where
  \<comment> \<open>\<^verbatim>\<open>for subdir in ['data', 'output']: ...\<close>\<close>
  "move_subdirs w tally_dir [] = (w, Inr ())"
| "move_subdirs w tally_dir (subdir # rest) =
     (let old_path = abspath w subdir
      in if path_isdir w old_path then
           (let new_path = join tally_dir subdir
            in bind (move (print (MovingSubdir subdir) w) old_path new_path)
                 (\<lambda>u w1. move_subdirs w1 tally_dir rest))
         else move_subdirs w tally_dir rest)"

definition newline :: string where
  "newline = [CHR 0x0A]"

definition perform_migration :: "world \<Rightarrow> string \<Rightarrow> world \<times> (exn + string option)" where
  \<comment> \<open>the \<^verbatim>\<open>try\<close> statement of \<^verbatim>\<open>migrate_v0_to_v1\<close> under the comment "Perform migration"\<close>
  "perform_migration w old_config_dir =
     (let tally_dir = abspath w ''tally'';
          new_config = join tally_dir ''config'';
          schema_file = join new_config ''.tally-schema''
      in case bind (makedirs w tally_dir) (\<lambda>u w1.
              bind (move (print MovingConfig w1) old_config_dir new_config) (\<lambda>u w2.
              bind (move_subdirs w2 tally_dir [''data'', ''output'']) (\<lambda>u w3.
              bind (write_text w3 schema_file (''1'' @ newline)) (\<lambda>u w4.
              (print Migrated w4, Inr new_config))))) of
           (w', Inr new_config) \<Rightarrow> (w', Inr (Some new_config))
         | (w', Inl e) \<Rightarrow>
             if e = OSError \<or> e = ShutilError
             then (eprint (ErrorDuringMigration e) w', Inr None)
             else (w', Inl e))"

definition layout_banner :: "msg list" where
  "layout_banner = [Blank, MigrationAvailable, CurrentLayout, NewLayout, Blank]"

definition migrate_v0_to_v1 :: "world \<Rightarrow> string \<Rightarrow> bool \<Rightarrow> world \<times> (exn + string option)" where
  "migrate_v0_to_v1 w old_config_dir skip_confirm =
     (if basename old_config_dir \<noteq> ''config'' then (w, Inr None)
      else if dirname old_config_dir \<noteq> cwd w then (w, Inr None)
      else if \<not> skip_confirm then
        (if \<not> stdin_tty w then (w, Inr None)
         else (case input PromptLayout (prints layout_banner w) of
                 (w1, Inl e) \<Rightarrow>
                   if e = EOFError \<or> e = KeyboardInterrupt then (print Skipped w1, Inr None)
                   else (w1, Inl e)
               | (w1, Inr response) \<Rightarrow>
                   if lower (strip response) = ''n'' then (w1, Inr None)
                   else perform_migration w1 old_config_dir))
      else perform_migration w old_config_dir)"

definition run_migrations :: "world \<Rightarrow> string \<Rightarrow> bool \<Rightarrow> world \<times> (exn + string)" where
  "run_migrations w config_dir skip_confirm =
     (case get_schema_version w config_dir of
        Inl e \<Rightarrow> (w, Inl e)
      | Inr current \<Rightarrow>
          if current \<ge> SCHEMA_VERSION then (w, Inr config_dir)
          else if current < 1 then
            (case migrate_v0_to_v1 w config_dir skip_confirm of
               (w', Inl e) \<Rightarrow> (w', Inl e)
             | (w', Inr result) \<Rightarrow>
                 (case result of
                    None \<Rightarrow> (w', Inr config_dir)
                  | Some r \<Rightarrow> if r \<noteq> [] then (w', Inr r) else (w', Inr config_dir)))
          else (w, Inr config_dir))"

section \<open>Rule format migration\<close>

text \<open>
  \<^verbatim>\<open>load_merchant_rules\<close>, \<^verbatim>\<open>csv_to_merchants_content\<close> and \<^verbatim>\<open>get_all_rules\<close> are
  imported from \<^verbatim>\<open>merchant_utils\<close> and \<^verbatim>\<open>merchant_engine\<close>, which are not part of
  the sources at hand. They are parameters of the model: each reads the world,
  changes nothing and prints nothing, and either returns a value or raises an
  exception derived from \<^verbatim>\<open>Exception\<close> (the result \<open>None\<close>). A rule is a value of
  an arbitrary type \<open>'r\<close>.
\<close>

record 'r collab =
  load_merchant_rules :: "world \<Rightarrow> string \<Rightarrow> 'r list option"
  csv_to_merchants_content :: "'r list \<Rightarrow> string option"
  get_all_rules :: "world \<Rightarrow> string option \<Rightarrow> string \<Rightarrow> 'r list option"

definition call :: "'a option \<Rightarrow> world \<Rightarrow> world \<times> (exn + 'a)" where
  "call r w = (case r of None \<Rightarrow> (w, Inl CollabError) | Some x \<Rightarrow> (w, Inr x))"

definition is_Exception :: "exn \<Rightarrow> bool" where
  \<comment> \<open>\<^verbatim>\<open>except Exception\<close> does not catch \<^verbatim>\<open>KeyboardInterrupt\<close>\<close>
  "is_Exception e = (e \<noteq> KeyboardInterrupt)"

definition comment_line :: string where
  "comment_line = newline @ ''# Merchant rules file (migrated from CSV)'' @ newline"

definition pointer_line :: string where
  "pointer_line = ''merchants_file: config/merchants.rules'' @ newline"

definition write_rules_file ::
  "'r collab \<Rightarrow> world \<Rightarrow> string \<Rightarrow> string \<Rightarrow> world \<times> (exn + unit)" where
  \<comment> \<open>the statements under "Load and convert" and "Write new file"\<close>
  "write_rules_file K w csv_file config_dir =
     bind (call (load_merchant_rules K w csv_file) w) (\<lambda>csv_rules w0.
     bind (call (csv_to_merchants_content K csv_rules) w0) (\<lambda>content w1.
     bind (write_text w1 (join config_dir ''merchants.rules'') content) (\<lambda>u w2.
     (print (Converted (length csv_rules)) (print Created w2), Inr ()))))"

definition backup_old_file :: "world \<Rightarrow> string \<Rightarrow> bool \<Rightarrow> world \<times> (exn + unit)" where
  \<comment> \<open>the statements under "Backup old file"\<close>
  "backup_old_file w csv_file backup =
     (if backup \<and> path_exists w csv_file then
        bind (move w csv_file (csv_file @ ''.bak'')) (\<lambda>u w1. (print BackedUp w1, Inr ()))
      else (w, Inr ()))"

definition update_settings :: "world \<Rightarrow> string \<Rightarrow> world \<times> (exn + unit)" where
  \<comment> \<open>the statements under "Update settings.yaml to reference new file"\<close>
  "update_settings w config_dir =
     (let settings_path = join config_dir ''settings.yaml''
      in if path_exists w settings_path then
           (case read_text w settings_path of
              Inl e \<Rightarrow> (w, Inl e)
            | Inr content \<Rightarrow>
                if \<not> sublist ''merchants_file:'' content then
                  bind (open_a w settings_path) (\<lambda>l w1.
                  bind (write_to w1 l comment_line) (\<lambda>u w2.
                  bind (write_to w2 l pointer_line) (\<lambda>u w3.
                  (print AddedPointer (print UpdatedSettings w3), Inr ()))))
                else (w, Inr ()))
         else (w, Inr ()))"

definition migrate_csv_to_rules ::
  "'r collab \<Rightarrow> world \<Rightarrow> string \<Rightarrow> string \<Rightarrow> bool \<Rightarrow> world \<times> (exn + bool)" where
  "migrate_csv_to_rules K w csv_file config_dir backup =
     (case bind (write_rules_file K w csv_file config_dir) (\<lambda>u w1.
           bind (backup_old_file w1 csv_file backup) (\<lambda>u w2.
           update_settings w2 config_dir)) of
        (w', Inr u) \<Rightarrow> (w', Inr True)
      | (w', Inl e) \<Rightarrow>
          if is_Exception e then (print (MigrationFailed e) w', Inr False)
          else (w', Inl e))"

section \<open>Rule source resolution\<close>

record config =
  merchants_file :: "string option"
  merchants_format :: "string option"
  rule_mode :: "string option"

definition no_rules_lines :: "msg list" where
  "no_rules_lines = [Blank, NoRulesDefined, RunDiscover, TipAgent, Blank]"

definition upgrade_box :: "msg list" where
  "upgrade_box = [Blank, Banner 0, Banner 1, Banner 2, Banner 3, Banner 4, Banner 5, Banner 6, Blank]"

definition ask_format :: "world \<Rightarrow> bool \<Rightarrow> bool \<Rightarrow> world \<times> (exn + bool)" where
  \<comment> \<open>from \<^verbatim>\<open>should_migrate = migrate\<close> to the end of the \<^verbatim>\<open>if is_interactive\<close> statement\<close>
  "ask_format w quiet migrate =
     (let is_interactive = (stdout_tty w \<and> \<not> migrate);
          w1 = (if \<not> quiet then prints upgrade_box w else w)
      in if is_interactive then
           (case input PromptFormat w1 of
              (w2, Inr response) \<Rightarrow>
                if lower (strip response) = ''y'' then (w2, Inr True)
                else (prints [SkippedCsv, Blank] w2, Inr False)
            | (w2, Inl e) \<Rightarrow>
                if e = EOFError \<or> e = KeyboardInterrupt
                then (prints [SkippedCsv, Blank] w2, Inr False)
                else (w2, Inl e))
         else if \<not> migrate \<and> \<not> quiet then (prints [TipMigrate, Blank] w1, Inr migrate)
         else (w1, Inr migrate))"

definition continue_with_csv ::
  "'r collab \<Rightarrow> world \<Rightarrow> string \<Rightarrow> string \<Rightarrow> 'r list \<Rightarrow> bool \<Rightarrow> world \<times> (exn + 'r list)" where
  \<comment> \<open>the statements under "Continue with CSV format for this run"\<close>
  "continue_with_csv K w file mode csv_rules quiet =
     (let w1 = (if \<not> quiet then
                  (let w0 = print (Loaded (length csv_rules) file) w
                   in if length csv_rules = 0 then prints no_rules_lines w0 else w0)
                else w)
      in call (get_all_rules K w1 (Some file) mode) w1)"

definition check_merchant_migration ::
  "'r collab \<Rightarrow> world \<Rightarrow> config \<Rightarrow> string \<Rightarrow> bool \<Rightarrow> bool \<Rightarrow> world \<times> (exn + 'r list)" where
  "check_merchant_migration K w config config_dir quiet migrate =
     (let mode = (case rule_mode config of None \<Rightarrow> ''first_match'' | Some m \<Rightarrow> m);
          no_file = (let w1 = (if \<not> quiet then print NoRulesFound w else w)
                     in call (get_all_rules K w1 None mode) w1)
      in case merchants_file config of
           None \<Rightarrow> no_file
         | Some file \<Rightarrow>
             if file = [] then no_file
             else if merchants_format config = Some ''csv'' then
               bind (call (load_merchant_rules K w file) w) (\<lambda>csv_rules w0.
               bind (ask_format w0 quiet migrate) (\<lambda>should_migrate w1.
                 if should_migrate then
                   bind (migrate_csv_to_rules K (prints [Migrating, Blank] w1) file config_dir True)
                     (\<lambda>ok w2.
                        if ok then
                          (let w3 = prints [Blank, MigrationComplete, Blank] w2
                           in call (get_all_rules K w3
                                      (Some (join config_dir ''merchants.rules'')) mode) w3)
                        else continue_with_csv K w2 file mode csv_rules quiet)
                 else continue_with_csv K w1 file mode csv_rules quiet))
             else if merchants_format config = Some ''new'' then
               bind (call (get_all_rules K w (Some file) mode) w) (\<lambda>rules w1.
                 (if \<not> quiet then
                    (let w2 = print (Loaded (length rules) file) w1
                     in if length rules = 0 then prints no_rules_lines w2 else w2)
                  else w1, Inr rules))
             else no_file)"

section \<open>Example worlds\<close>

text \<open>A directory \<^verbatim>\<open>/w/config\<close> whose marker holds \<^verbatim>\<open>-1\<close>.\<close>

definition w_negative_marker :: world where
  "w_negative_marker =
     \<lparr>fs = [[] \<mapsto> Dir, [''w''] \<mapsto> Dir, [''w'', ''config''] \<mapsto> Dir,
            [''w'', ''config'', ''.tally-schema''] \<mapsto> File (''-1'' @ [CHR 0x0A])],
      faults = (\<lambda>_ _. False), cwd = ''/w'', stdin_tty = False, stdout_tty = False,
      stdin = [], stdout = [], stderr = [], trace = []\<rparr>"

section \<open>Properties of the schema version\<close>

lemma rstrip_decomp: "ys = rev (dropWhile P (rev ys)) @ rev (takeWhile P (rev ys))"
proof -
  have "ys = rev (takeWhile P (rev ys) @ dropWhile P (rev ys))"
    by (simp only: takeWhile_dropWhile_id rev_rev_ident)
  also have "\<dots> = rev (dropWhile P (rev ys)) @ rev (takeWhile P (rev ys))"
    by (rule rev_append)
  finally show ?thesis .
qed

lemma rstrip_keeps_head:
  assumes "ys = [] \<or> \<not> P (hd ys)"
  shows "dropWhile P (rev (dropWhile P (rev ys))) = rev (dropWhile P (rev ys))"
proof (cases "rev (dropWhile P (rev ys)) = []")
  case True
  then show ?thesis by (simp only: dropWhile.simps)
next
  case False
  then have "hd ys = hd (rev (dropWhile P (rev ys)))"
    using rstrip_decomp [of ys P] by (metis hd_append2)
  moreover from False have "ys \<noteq> []" by auto
  ultimately show ?thesis using assms False by (simp add: dropWhile_eq_self_iff)
qed

lemma strip_idem: "strip (strip s) = strip s"
proof -
  have h: "dropWhile is_space s = [] \<or> \<not> is_space (hd (dropWhile is_space s))"
    by (metis hd_dropWhile)
  have "dropWhile is_space (strip s) = strip s"
    unfolding strip_def by (rule rstrip_keeps_head [of "dropWhile is_space s" is_space, OF h])
  then show ?thesis
    by (simp add: strip_def dropWhile_idem)
qed

lemma read_text_exn: "read_text w p = Inl e \<Longrightarrow> e = OSError \<or> e = ValueError"
  by (auto simp: read_text_def Let_def split: if_splits option.splits node.splits)

lemma py_int_exn: "py_int s = Inl e \<Longrightarrow> e = ValueError"
  by (auto simp: py_int_def split: option.splits)

lemma resolve_marker_negative:
  "resolve w_negative_marker ''/w/config/.tally-schema'' = [''w'', ''config'', ''.tally-schema'']"
  by (simp add: resolve_def isabs_def is_sep_def components_def norm_step_def)

lemma strip_negative_marker: "strip (''-1'' @ [CHR 0x0A]) = ''-1''"
  by (simp add: strip_def is_space_def)

lemma get_schema_version_negative:
  "get_schema_version w_negative_marker ''/w/config'' = Inr (- 1)"
  by (simp add: get_schema_version_def join_def is_sep_def path_exists_def read_text_def
      resolve_marker_negative)
     (simp add: w_negative_marker_def py_int_def py_int_literal_def strip_negative_marker
      py_digits_def is_digit_def digit_val_def strip_def is_space_def)

text \<open>
  C7, as stated: for every directory, \<open>get_schema_version\<close> returns a non-negative
  integer. It does not: a marker file holding \<^verbatim>\<open>-1\<close> is read as \<open>-1\<close>.
\<close>

theorem get_schema_version_nonneg_counterexample:
  "\<not> (\<exists>n. get_schema_version w_negative_marker ''/w/config'' = Inr n \<and> 0 \<le> n)"
  by (simp add: get_schema_version_negative)

text \<open>
  C7, amended: for every directory, \<open>get_schema_version\<close> never raises and returns an
  integer; it returns 0 whenever the marker file is absent, unreadable or not an
  integer literal; and the result is negative only when the marker file is readable
  and holds a negative integer literal.
\<close>

theorem get_schema_version_total:
  "(\<exists>n. get_schema_version w d = Inr n)
   \<and> (\<not> path_exists w (join d ''.tally-schema'') \<longrightarrow> get_schema_version w d = Inr 0)
   \<and> ((\<exists>e. read_text w (join d ''.tally-schema'') = Inl e) \<longrightarrow> get_schema_version w d = Inr 0)
   \<and> (\<forall>s. read_text w (join d ''.tally-schema'') = Inr s \<and> py_int_literal s = None
          \<longrightarrow> get_schema_version w d = Inr 0)
   \<and> (\<forall>n. get_schema_version w d = Inr n \<and> n < 0
          \<longrightarrow> (\<exists>s. read_text w (join d ''.tally-schema'') = Inr s \<and> py_int_literal s = Some n))"
proof -
  let ?m = "join d ''.tally-schema''"
  have strip_lit: "py_int_literal (strip s) = py_int_literal s" for s
    by (simp add: py_int_literal_def strip_idem)
  show ?thesis
  proof (cases "path_exists w ?m")
    case False
    then show ?thesis by (auto simp: get_schema_version_def)
  next
    case True
    show ?thesis
    proof (cases "read_text w ?m")
      case (Inl e)
      with True read_text_exn [OF Inl] show ?thesis
        by (auto simp: get_schema_version_def)
    next
      case (Inr s)
      with True show ?thesis
        by (auto simp: get_schema_version_def py_int_def strip_lit split: option.splits)
    qed
  qed
qed

theorem get_schema_version_total_witness:
  "\<not> path_exists w_negative_marker (join ''/w'' ''.tally-schema'')
   \<and> get_schema_version w_negative_marker ''/w'' = Inr 0"
proof -
  have a: "\<not> path_exists w_negative_marker (join ''/w'' ''.tally-schema'')"
    by (simp add: path_exists_def join_def is_sep_def resolve_def isabs_def components_def
        norm_step_def w_negative_marker_def)
  from get_schema_version_total [of w_negative_marker "''/w''"] a show ?thesis by blast
qed

end
